theory Spec2Isabelle
  imports Complex_Main "HOL-Library.Log_Nat"
begin

section \<open>JavaScript numbers and values\<close>

text \<open>
  The filmstrip functions of \<^verbatim>\<open>src/react/features/uploadPPT/upload.js\<close> compute
  with JavaScript numbers. A number is modelled as a finite real or one of the three
  special values of the language. The operators of this section return the exact result
  on finite operands; the rounding of that result to a double is the subject of the
  section on double precision, and the properties that depend on it are stated there.
  Zero carries no sign, so a division by zero yields the infinity that a division by
  \<open>+0\<close> yields. The special values follow the language: an operation on \<open>NaN\<close> is
  \<open>NaN\<close>, a comparison with \<open>NaN\<close> is false, \<open>Infinity - Infinity\<close>,
  \<open>0 * Infinity\<close>, \<open>0 / 0\<close> and \<open>Infinity / Infinity\<close> are \<open>NaN\<close>.
\<close>

datatype jsnum = Num real | PosInf | NegInf | NaN

text \<open>The binary operators \<^verbatim>\<open>+\<close>, \<^verbatim>\<open>-\<close>, \<^verbatim>\<open>*\<close> and \<^verbatim>\<open>/\<close> on numbers.\<close>

fun js_add :: "jsnum \<Rightarrow> jsnum \<Rightarrow> jsnum" where
  "js_add NaN _ = NaN"
| "js_add _ NaN = NaN"
| "js_add PosInf NegInf = NaN"
| "js_add NegInf PosInf = NaN"
| "js_add PosInf _ = PosInf"
| "js_add _ PosInf = PosInf"
| "js_add NegInf _ = NegInf"
| "js_add _ NegInf = NegInf"
| "js_add (Num a) (Num b) = Num (a + b)"

fun js_sub :: "jsnum \<Rightarrow> jsnum \<Rightarrow> jsnum" where
  "js_sub NaN _ = NaN"
| "js_sub _ NaN = NaN"
| "js_sub PosInf PosInf = NaN"
| "js_sub NegInf NegInf = NaN"
| "js_sub PosInf _ = PosInf"
| "js_sub _ NegInf = PosInf"
| "js_sub NegInf _ = NegInf"
| "js_sub _ PosInf = NegInf"
| "js_sub (Num a) (Num b) = Num (a - b)"

text \<open>The sign of a product or quotient with an infinite operand; \<open>pos\<close> tells whether
  the two operands have the same sign.\<close>

definition js_inf :: "bool \<Rightarrow> jsnum" where
  "js_inf pos = (if pos then PosInf else NegInf)"

fun js_mul :: "jsnum \<Rightarrow> jsnum \<Rightarrow> jsnum" where
  "js_mul NaN _ = NaN"
| "js_mul _ NaN = NaN"
| "js_mul PosInf PosInf = PosInf"
| "js_mul PosInf NegInf = NegInf"
| "js_mul NegInf PosInf = NegInf"
| "js_mul NegInf NegInf = PosInf"
| "js_mul PosInf (Num b) = (if b = 0 then NaN else js_inf (0 < b))"
| "js_mul NegInf (Num b) = (if b = 0 then NaN else js_inf (b < 0))"
| "js_mul (Num a) PosInf = (if a = 0 then NaN else js_inf (0 < a))"
| "js_mul (Num a) NegInf = (if a = 0 then NaN else js_inf (a < 0))"
| "js_mul (Num a) (Num b) = Num (a * b)"

fun js_div :: "jsnum \<Rightarrow> jsnum \<Rightarrow> jsnum" where
  "js_div NaN _ = NaN"
| "js_div _ NaN = NaN"
| "js_div PosInf PosInf = NaN"
| "js_div PosInf NegInf = NaN"
| "js_div NegInf PosInf = NaN"
| "js_div NegInf NegInf = NaN"
| "js_div PosInf (Num b) = js_inf (0 \<le> b)"
| "js_div NegInf (Num b) = js_inf (b < 0)"
| "js_div (Num a) PosInf = Num 0"
| "js_div (Num a) NegInf = Num 0"
| "js_div (Num a) (Num b) =
     (if b = 0 then (if a = 0 then NaN else js_inf (0 < a)) else Num (a / b))"

text \<open>The relational operators \<^verbatim>\<open><\<close>, \<^verbatim>\<open>>\<close> and \<^verbatim>\<open><=\<close>.\<close>

fun js_lt :: "jsnum \<Rightarrow> jsnum \<Rightarrow> bool" where
  "js_lt NaN _ = False"
| "js_lt _ NaN = False"
| "js_lt PosInf _ = False"
| "js_lt _ NegInf = False"
| "js_lt _ PosInf = True"
| "js_lt NegInf _ = True"
| "js_lt (Num a) (Num b) = (a < b)"

definition js_gt :: "jsnum \<Rightarrow> jsnum \<Rightarrow> bool" where
  "js_gt a b = js_lt b a"

definition js_le :: "jsnum \<Rightarrow> jsnum \<Rightarrow> bool" where
  "js_le a b = (a \<noteq> NaN \<and> b \<noteq> NaN \<and> \<not> js_lt b a)"

text \<open>\<^verbatim>\<open>Math.min\<close>, \<^verbatim>\<open>Math.max\<close> and \<^verbatim>\<open>Math.floor\<close>.\<close>

definition Math_min :: "jsnum \<Rightarrow> jsnum \<Rightarrow> jsnum" where
  "Math_min a b = (if a = NaN \<or> b = NaN then NaN else if js_lt b a then b else a)"

definition Math_max :: "jsnum \<Rightarrow> jsnum \<Rightarrow> jsnum" where
  "Math_max a b = (if a = NaN \<or> b = NaN then NaN else if js_lt a b then b else a)"

fun Math_floor :: "jsnum \<Rightarrow> jsnum" where
  "Math_floor (Num a) = Num (of_int \<lfloor>a\<rfloor>)"
| "Math_floor x = x"

text \<open>
  A configuration field or an argument is a number or \<^verbatim>\<open>undefined\<close> (\<open>None\<close>: the
  field is unset, the argument omitted). \<open>to_number\<close> is the conversion the arithmetic
  operators apply to an operand, \<open>js_or\<close> is \<^verbatim>\<open>v || d\<close> (\<^verbatim>\<open>undefined\<close>, \<open>0\<close> and
  \<open>NaN\<close> are falsy), \<open>default_param\<close> is a default parameter value
  (\<^verbatim>\<open>function f(x = d)\<close>).
\<close>

type_synonym jsval = "jsnum option"

definition to_number :: "jsval \<Rightarrow> jsnum" where
  "to_number v = (case v of None \<Rightarrow> NaN | Some n \<Rightarrow> n)"

definition truthy :: "jsval \<Rightarrow> bool" where
  "truthy v = (case v of None \<Rightarrow> False | Some n \<Rightarrow> n \<noteq> Num 0 \<and> n \<noteq> NaN)"

definition js_or :: "jsval \<Rightarrow> jsnum \<Rightarrow> jsnum" where
  "js_or v d = (if truthy v then to_number v else d)"

definition default_param :: "jsval \<Rightarrow> jsnum \<Rightarrow> jsnum" where
  "default_param v d = (case v of None \<Rightarrow> d | Some n \<Rightarrow> n)"

section \<open>Configuration and constants\<close>

text \<open>The fields of the global \<^verbatim>\<open>interfaceConfig\<close> that the functions read.\<close>

record interface_config =
  FILM_STRIP_MAX_HEIGHT :: jsval
  LOCAL_THUMBNAIL_RATIO :: jsval
  REMOTE_THUMBNAIL_RATIO :: jsval

text \<open>
  The numeric constants imported from \<^verbatim>\<open>./constants\<close>. That module is not among the
  sources, so the constants are parameters of the model.
\<close>

record constants =
  ASPECT_RATIO_BREAKPOINT :: real
  SCROLL_SIZE :: real
  SQUARE_TILE_ASPECT_RATIO :: real
  STAGE_VIEW_THUMBNAIL_HORIZONTAL_BORDER :: real
  TILE_ASPECT_RATIO :: real
  TILE_HORIZONTAL_MARGIN :: real
  TILE_VERTICAL_MARGIN :: real
  VERTICAL_FILMSTRIP_MIN_HORIZONTAL_MARGIN :: real

text \<open>
  Modelled from the spec: the five \<^verbatim>\<open>DISPLAY_*\<close> constants of \<^verbatim>\<open>./constants\<close>, which is
  not among the sources. The spec gives them as the enumeration \<open>DisplayMode\<close> of five
  distinct values.
\<close>

datatype DisplayMode =
  DISPLAY_VIDEO
| DISPLAY_AVATAR
| DISPLAY_AVATAR_WITH_NAME
| DISPLAY_BLACKNESS_WITH_NAME
| DISPLAY_VIDEO_WITH_NAME

section \<open>Visibility of the remote thumbnails\<close>

text \<open>
  \<open>disable1On1Mode\<close> of the configuration is compared with \<^verbatim>\<open>null\<close> by \<^verbatim>\<open>!==\<close> and
  then used for its truthiness, so the model keeps \<^verbatim>\<open>null\<close>, \<^verbatim>\<open>undefined\<close> and the two
  booleans apart.
\<close>

datatype js_flag = JSNull | JSUndefined | JSBool bool

fun flag_truthy :: "js_flag \<Rightarrow> bool" where
  "flag_truthy (JSBool b) = b"
| "flag_truthy _ = False"

text \<open>
  The parts of the redux state that \<open>shouldRemoteVideosBeVisible\<close> reads:
  \<open>calleeInfoVisible\<close> of \<^verbatim>\<open>features/invite\<close>, the result of
  \<^verbatim>\<open>getParticipantCountWithFake(state)\<close>, \<open>disable1On1Mode\<close> of
  \<^verbatim>\<open>features/base/config\<close>, \<open>visible\<close> of \<^verbatim>\<open>features/toolbox\<close> and the result of
  \<^verbatim>\<open>getPinnedParticipant(state)\<close>: \<open>None\<close> when no participant is pinned, otherwise the
  \<open>local\<close> flag of the pinned participant.
\<close>

record visibility_state =
  calleeInfoVisible :: bool
  participantCount :: nat
  disable1On1Mode :: js_flag
  toolboxVisible :: bool
  pinnedParticipant :: "bool option"

definition shouldRemoteVideosBeVisible :: "visibility_state \<Rightarrow> bool" where
  "shouldRemoteVideosBeVisible state =
     (if calleeInfoVisible state then False
      else
        (participantCount state > 2
         \<or> (participantCount state > 1
             \<and> disable1On1Mode state \<noteq> JSNull
             \<and> (toolboxVisible state
                 \<or> (case pinnedParticipant state of None \<Rightarrow> False | Some l \<Rightarrow> l)))
         \<or> flag_truthy (disable1On1Mode state)))"

section \<open>Thumbnail geometry\<close>

record thumbnail_size =
  height :: jsnum
  width :: jsnum

record thumbnail_sizes =
  local :: thumbnail_size
  remote :: thumbnail_size

definition calculateThumbnailSizeForHorizontalView ::
  "interface_config \<Rightarrow> jsval \<Rightarrow> thumbnail_sizes" where
  "calculateThumbnailSizeForHorizontalView interfaceConfig arg =
     (let clientHeight = default_param arg (Num 0);
          topBottomMargin = Num 15;
          availableHeight =
            Math_min clientHeight
              (js_add (js_or (FILM_STRIP_MAX_HEIGHT interfaceConfig) (Num 120)) topBottomMargin);
          height = js_sub availableHeight topBottomMargin
      in \<lparr> local = \<lparr> height = height,
                     width = Math_floor
                       (js_mul (to_number (LOCAL_THUMBNAIL_RATIO interfaceConfig)) height) \<rparr>,
           remote = \<lparr> height = height,
                      width = Math_floor
                        (js_mul (to_number (REMOTE_THUMBNAIL_RATIO interfaceConfig)) height) \<rparr> \<rparr>)"

definition horizontalMargin :: "constants \<Rightarrow> real" where
  "horizontalMargin k =
     VERTICAL_FILMSTRIP_MIN_HORIZONTAL_MARGIN k + SCROLL_SIZE k
       + TILE_HORIZONTAL_MARGIN k + STAGE_VIEW_THUMBNAIL_HORIZONTAL_BORDER k"

definition calculateThumbnailSizeForVerticalView ::
  "constants \<Rightarrow> interface_config \<Rightarrow> jsval \<Rightarrow> thumbnail_sizes" where
  "calculateThumbnailSizeForVerticalView k interfaceConfig arg =
     (let clientWidth = default_param arg (Num 0);
          availableWidth =
            Math_min
              (Math_max (js_sub clientWidth (Num (horizontalMargin k))) (Num 0))
              (js_or (FILM_STRIP_MAX_HEIGHT interfaceConfig) (Num 120))
      in \<lparr> local = \<lparr> height = Math_floor
                       (js_div availableWidth (to_number (LOCAL_THUMBNAIL_RATIO interfaceConfig))),
                     width = availableWidth \<rparr>,
           remote = \<lparr> height = Math_floor
                        (js_div availableWidth (to_number (REMOTE_THUMBNAIL_RATIO interfaceConfig))),
                      width = availableWidth \<rparr> \<rparr>)"

text \<open>The argument object of \<open>calculateThumbnailSizeForTileView\<close>.\<close>

record layout_input =
  columns :: jsnum
  minVisibleRows :: jsnum
  rows :: jsnum
  clientWidth :: jsnum
  clientHeight :: jsnum
  disableResponsiveTiles :: bool

text \<open>The quantities that \<open>calculateThumbnailSizeForTileView\<close> binds, one definition
  for each \<^verbatim>\<open>const\<close> or \<^verbatim>\<open>let\<close> of the source, in its order.\<close>

definition aspectRatio :: "constants \<Rightarrow> layout_input \<Rightarrow> jsnum" where
  "aspectRatio k i =
     (if \<not> disableResponsiveTiles i \<and> js_lt (clientWidth i) (Num (ASPECT_RATIO_BREAKPOINT k))
      then Num (SQUARE_TILE_ASPECT_RATIO k)
      else Num (TILE_ASPECT_RATIO k))"









text \<open>\<open>innerWidth\<close> is the value of \<^verbatim>\<open>window.innerWidth\<close>.\<close>

definition getVerticalFilmstripVisibleAreaWidth :: "interface_config \<Rightarrow> jsnum \<Rightarrow> jsnum" where
  "getVerticalFilmstripVisibleAreaWidth interfaceConfig innerWidth =
     (let filmstripMaxWidth =
            js_add (js_or (FILM_STRIP_MAX_HEIGHT interfaceConfig) (Num 120)) (Num 18)
      in Math_min filmstripMaxWidth innerWidth)"

section \<open>Display mode of a thumbnail\<close>

record display_mode_input =
  isAudioOnly :: bool
  isCurrentlyOnLargeVideo :: bool
  isScreenSharing :: bool
  canPlayEventReceived :: bool
  isHovered :: bool
  isRemoteParticipant :: bool
  tileViewActive :: bool
  isVideoPlayable :: bool

definition computeDisplayMode :: "display_mode_input \<Rightarrow> DisplayMode" where
  "computeDisplayMode input =
     (let adjustedIsVideoPlayable =
            (isVideoPlayable input \<and> (\<not> isRemoteParticipant input \<or> canPlayEventReceived input))
      in if \<not> tileViewActive input \<and> isScreenSharing input \<and> isRemoteParticipant input
         then (if isHovered input then DISPLAY_AVATAR_WITH_NAME else DISPLAY_AVATAR)
         else if isCurrentlyOnLargeVideo input \<and> \<not> tileViewActive input
         then (if adjustedIsVideoPlayable \<and> \<not> isAudioOnly input
               then DISPLAY_BLACKNESS_WITH_NAME else DISPLAY_AVATAR_WITH_NAME)
         else if adjustedIsVideoPlayable \<and> \<not> isAudioOnly input
         then (if isHovered input then DISPLAY_VIDEO_WITH_NAME else DISPLAY_VIDEO)
         else (if isHovered input then DISPLAY_AVATAR_WITH_NAME else DISPLAY_AVATAR))"

section \<open>Double precision\<close>

text \<open>
  The operators above give the exact result on finite operands. A JavaScript number is an
  IEEE 754 binary64 value, and each arithmetic operator returns the exact result rounded to
  the nearest such value, a tie going to the even significand. \<open>binade x\<close> is the exponent
  \<open>e\<close> with \<open>2 ^ e \<le> \<bar>x\<bar> < 2 ^ (e + 1)\<close>, \<open>quantum x\<close> the spacing \<open>2 ^ (e - 52)\<close> of the
  values around \<open>x\<close> (\<open>2 ^ - 1074\<close> in the subnormal range), and \<open>to_double x\<close> the value
  the machine stores for the exact result \<open>x\<close>: the nearest multiple of the spacing, or an
  infinity once that reaches \<open>2 ^ 1024\<close>. The sign of zero is not modelled.
\<close>

definition round_even :: "real \<Rightarrow> int" where
  "round_even y =
     (let f = \<lfloor>y\<rfloor>; d = y - of_int f
      in if d < 1 / 2 then f else if 1 / 2 < d then f + 1 else if even f then f else f + 1)"

definition binade :: "real \<Rightarrow> int" where
  "binade x = (if 1 \<le> \<bar>x\<bar> then bitlen \<lfloor>\<bar>x\<bar>\<rfloor> - 1 else - bitlen (\<lceil>1 / \<bar>x\<bar>\<rceil> - 1))"

definition quantum :: "real \<Rightarrow> real" where
  "quantum x = power_int 2 (max (binade x) (- 1022) - 52)"

definition to_double :: "real \<Rightarrow> jsnum" where
  "to_double x =
     (if x = 0 then Num 0
      else let r = quantum x * of_int (round_even (x / quantum x))
           in if 2 ^ 1024 \<le> \<bar>r\<bar> then js_inf (0 < x) else Num r)"

fun rounded :: "jsnum \<Rightarrow> jsnum" where
  "rounded (Num x) = to_double x"
| "rounded v = v"

text \<open>The operators \<^verbatim>\<open>-\<close>, \<^verbatim>\<open>*\<close> and \<^verbatim>\<open>/\<close> as the machine computes them.\<close>

definition dbl_sub :: "jsnum \<Rightarrow> jsnum \<Rightarrow> jsnum" where
  "dbl_sub a b = rounded (js_sub a b)"

definition dbl_mul :: "jsnum \<Rightarrow> jsnum \<Rightarrow> jsnum" where
  "dbl_mul a b = rounded (js_mul a b)"

definition dbl_div :: "jsnum \<Rightarrow> jsnum \<Rightarrow> jsnum" where
  "dbl_div a b = rounded (js_div a b)"

text \<open>
  \<open>calculateThumbnailSizeForTileView\<close> in double precision: the same bindings in the same
  order, every arithmetic result rounded. Comparisons, \<^verbatim>\<open>Math.min\<close>, \<^verbatim>\<open>Math.max\<close> and
  \<^verbatim>\<open>Math.floor\<close> are exact on doubles, and \<open>aspectRatio\<close> involves no arithmetic. The
  arguments and the constants are meant to be doubles themselves.
\<close>

definition viewWidth_dbl :: "constants \<Rightarrow> layout_input \<Rightarrow> jsnum" where
  "viewWidth_dbl k i =
     dbl_sub (clientWidth i) (dbl_mul (columns i) (Num (TILE_HORIZONTAL_MARGIN k)))"

definition viewHeight_dbl :: "constants \<Rightarrow> layout_input \<Rightarrow> jsnum" where
  "viewHeight_dbl k i =
     dbl_sub (clientHeight i) (dbl_mul (minVisibleRows i) (Num (TILE_VERTICAL_MARGIN k)))"

definition initialWidth_dbl :: "constants \<Rightarrow> layout_input \<Rightarrow> jsnum" where
  "initialWidth_dbl k i = dbl_div (viewWidth_dbl k i) (columns i)"

definition initialHeight_dbl :: "constants \<Rightarrow> layout_input \<Rightarrow> jsnum" where
  "initialHeight_dbl k i = dbl_div (viewHeight_dbl k i) (minVisibleRows i)"

definition aspectRatioHeight_dbl :: "constants \<Rightarrow> layout_input \<Rightarrow> jsnum" where
  "aspectRatioHeight_dbl k i = dbl_div (initialWidth_dbl k i) (aspectRatio k i)"

definition noScrollHeight_dbl :: "constants \<Rightarrow> layout_input \<Rightarrow> jsnum" where
  "noScrollHeight_dbl k i =
     dbl_sub (dbl_div (clientHeight i) (rows i)) (Num (TILE_VERTICAL_MARGIN k))"

definition scrollInitialWidth_dbl :: "constants \<Rightarrow> layout_input \<Rightarrow> jsnum" where
  "scrollInitialWidth_dbl k i =
     dbl_div (dbl_sub (viewWidth_dbl k i) (Num (SCROLL_SIZE k))) (columns i)"

definition calculateThumbnailSizeForTileView_dbl ::
  "constants \<Rightarrow> layout_input \<Rightarrow> thumbnail_size" where
  "calculateThumbnailSizeForTileView_dbl k i =
     (let height = Math_floor (Math_min (aspectRatioHeight_dbl k i) (initialHeight_dbl k i));
          width = Math_floor (dbl_mul (aspectRatio k i) height)
      in if js_gt height (noScrollHeight_dbl k i) \<and> js_gt width (scrollInitialWidth_dbl k i)
         then
           (let scrollAspectRatioHeight =
                  dbl_div (scrollInitialWidth_dbl k i) (aspectRatio k i);
                height' = Math_floor
                  (Math_max (Math_min scrollAspectRatioHeight (initialHeight_dbl k i))
                     (noScrollHeight_dbl k i));
                width' = Math_floor (dbl_mul (aspectRatio k i) height')
            in \<lparr> height = height', width = width' \<rparr>)
         else \<lparr> height = height, width = width \<rparr>)"

section \<open>Facts about the number model\<close>

lemma Math_min_Num [simp]: "Math_min (Num a) (Num b) = Num (min a b)"
  by (simp add: Math_min_def min_def)

lemma Math_max_Num [simp]: "Math_max (Num a) (Num b) = Num (max a b)"
  by (simp add: Math_max_def max_def)

lemma js_gt_Num [simp]: "js_gt (Num a) (Num b) = (b < a)"
  by (simp add: js_gt_def)

lemma js_le_Num [simp]: "js_le (Num a) (Num b) = (a \<le> b)"
  by (auto simp: js_le_def)

lemma js_or_not_NaN: "d \<noteq> NaN \<Longrightarrow> js_or v d \<noteq> NaN"
  by (auto simp: js_or_def truthy_def to_number_def split: option.splits)

lemma js_or_not_zero: "d \<noteq> Num 0 \<Longrightarrow> js_or v d \<noteq> Num 0"
  by (auto simp: js_or_def truthy_def to_number_def split: option.splits)

lemma js_or_unset [simp]: "js_or None d = d"
  by (simp add: js_or_def truthy_def)

lemma js_or_zero [simp]: "js_or (Some (Num 0)) d = d"
  by (simp add: js_or_def truthy_def)

lemma js_or_truthy: "n \<noteq> Num 0 \<Longrightarrow> n \<noteq> NaN \<Longrightarrow> js_or (Some n) d = n"
  by (simp add: js_or_def truthy_def to_number_def)

section \<open>Properties of the visibility rule\<close>

text \<open>
  Claim C2, as amended. With more than two participants (three in particular) and no
  callee info shown, \<open>shouldRemoteVideosBeVisible\<close> returns true, whatever
  \<open>disable1On1Mode\<close>, the toolbox visibility and the pinned participant are.
\<close>

theorem more_than_two_participants_visible:
  assumes "participantCount state > 2" and "\<not> calleeInfoVisible state"
  shows "shouldRemoteVideosBeVisible state"
  using assms by (simp add: shouldRemoteVideosBeVisible_def)

text \<open>Three participants, every other flag against showing the filmstrip.\<close>

theorem more_than_two_participants_visible_witness:
  "participantCount \<lparr> calleeInfoVisible = False, participantCount = 3,
       disable1On1Mode = JSNull, toolboxVisible = False, pinnedParticipant = None \<rparr> > 2
   \<and> \<not> calleeInfoVisible \<lparr> calleeInfoVisible = False, participantCount = 3,
       disable1On1Mode = JSNull, toolboxVisible = False, pinnedParticipant = None \<rparr>
   \<and> shouldRemoteVideosBeVisible \<lparr> calleeInfoVisible = False, participantCount = 3,
       disable1On1Mode = JSNull, toolboxVisible = False, pinnedParticipant = None \<rparr>"
  using more_than_two_participants_visible
    [of "\<lparr> calleeInfoVisible = False, participantCount = 3,
       disable1On1Mode = JSNull, toolboxVisible = False, pinnedParticipant = None \<rparr>"]
  by simp

text \<open>
  Claim C2 as it is written fails: with three participants and the callee info shown,
  the guard at the top of the function returns false before the count is looked at.
\<close>

theorem three_participants_callee_info_counterexample:
  "participantCount \<lparr> calleeInfoVisible = True, participantCount = 3,
       disable1On1Mode = JSBool True, toolboxVisible = True, pinnedParticipant = Some True \<rparr> = 3
   \<and> \<not> shouldRemoteVideosBeVisible \<lparr> calleeInfoVisible = True, participantCount = 3,
       disable1On1Mode = JSBool True, toolboxVisible = True, pinnedParticipant = Some True \<rparr>"
  by (simp add: shouldRemoteVideosBeVisible_def)

text \<open>
  Claim C3. When \<open>calleeInfoVisible\<close> is true, \<open>shouldRemoteVideosBeVisible\<close> returns
  false, whatever the participant count, \<open>disable1On1Mode\<close>, the toolbox visibility and
  the pinned participant are.
\<close>

theorem callee_info_hides_remote_videos:
  assumes "calleeInfoVisible state"
  shows "\<not> shouldRemoteVideosBeVisible state"
  using assms by (simp add: shouldRemoteVideosBeVisible_def)

text \<open>Five participants, 1-on-1 mode disabled, toolbox shown, local video pinned.\<close>

theorem callee_info_hides_remote_videos_witness:
  "calleeInfoVisible \<lparr> calleeInfoVisible = True, participantCount = 5,
       disable1On1Mode = JSBool True, toolboxVisible = True, pinnedParticipant = Some True \<rparr>
   \<and> \<not> shouldRemoteVideosBeVisible \<lparr> calleeInfoVisible = True, participantCount = 5,
       disable1On1Mode = JSBool True, toolboxVisible = True, pinnedParticipant = Some True \<rparr>"
  using callee_info_hides_remote_videos
    [of "\<lparr> calleeInfoVisible = True, participantCount = 5,
       disable1On1Mode = JSBool True, toolboxVisible = True, pinnedParticipant = Some True \<rparr>"]
  by simp

section \<open>Properties of the display mode\<close>

text \<open>
  Claim C7. For a remote participant who shares the screen, outside tile view and not
  hovered, \<open>computeDisplayMode\<close> returns \<open>DISPLAY_AVATAR\<close>, whatever
  \<open>isVideoPlayable\<close>, \<open>canPlayEventReceived\<close>, \<open>isAudioOnly\<close> and
  \<open>isCurrentlyOnLargeVideo\<close> are: the first rule fires before any playability check.
\<close>

theorem screen_sharing_remote_shows_avatar:
  assumes "isScreenSharing input" and "isRemoteParticipant input"
    and "\<not> tileViewActive input" and "\<not> isHovered input"
  shows "computeDisplayMode input = DISPLAY_AVATAR"
  using assms by (simp add: computeDisplayMode_def)

text \<open>A playable video on the large video: the later rules would give blackness.\<close>

theorem screen_sharing_remote_shows_avatar_witness:
  "isScreenSharing \<lparr> isAudioOnly = False, isCurrentlyOnLargeVideo = True,
       isScreenSharing = True, canPlayEventReceived = True, isHovered = False,
       isRemoteParticipant = True, tileViewActive = False, isVideoPlayable = True \<rparr>
   \<and> isRemoteParticipant \<lparr> isAudioOnly = False, isCurrentlyOnLargeVideo = True,
       isScreenSharing = True, canPlayEventReceived = True, isHovered = False,
       isRemoteParticipant = True, tileViewActive = False, isVideoPlayable = True \<rparr>
   \<and> \<not> tileViewActive \<lparr> isAudioOnly = False, isCurrentlyOnLargeVideo = True,
       isScreenSharing = True, canPlayEventReceived = True, isHovered = False,
       isRemoteParticipant = True, tileViewActive = False, isVideoPlayable = True \<rparr>
   \<and> \<not> isHovered \<lparr> isAudioOnly = False, isCurrentlyOnLargeVideo = True,
       isScreenSharing = True, canPlayEventReceived = True, isHovered = False,
       isRemoteParticipant = True, tileViewActive = False, isVideoPlayable = True \<rparr>
   \<and> computeDisplayMode \<lparr> isAudioOnly = False, isCurrentlyOnLargeVideo = True,
       isScreenSharing = True, canPlayEventReceived = True, isHovered = False,
       isRemoteParticipant = True, tileViewActive = False, isVideoPlayable = True \<rparr>
     = DISPLAY_AVATAR"
  using screen_sharing_remote_shows_avatar
    [of "\<lparr> isAudioOnly = False, isCurrentlyOnLargeVideo = True,
       isScreenSharing = True, canPlayEventReceived = True, isHovered = False,
       isRemoteParticipant = True, tileViewActive = False, isVideoPlayable = True \<rparr>"]
  by simp

text \<open>
  Claim C9. For a remote participant whose \<open>canplay\<close> event has not been received,
  \<open>computeDisplayMode\<close> returns \<open>DISPLAY_AVATAR\<close> or \<open>DISPLAY_AVATAR_WITH_NAME\<close>,
  and so none of \<open>DISPLAY_VIDEO\<close>, \<open>DISPLAY_VIDEO_WITH_NAME\<close> and
  \<open>DISPLAY_BLACKNESS_WITH_NAME\<close>, whatever \<open>isVideoPlayable\<close> and the other fields are.
\<close>

theorem remote_without_canplay_shows_avatar:
  assumes "isRemoteParticipant input" and "\<not> canPlayEventReceived input"
  shows "(computeDisplayMode input = DISPLAY_AVATAR
          \<or> computeDisplayMode input = DISPLAY_AVATAR_WITH_NAME)
         \<and> computeDisplayMode input \<noteq> DISPLAY_VIDEO
         \<and> computeDisplayMode input \<noteq> DISPLAY_VIDEO_WITH_NAME
         \<and> computeDisplayMode input \<noteq> DISPLAY_BLACKNESS_WITH_NAME"
  using assms by (simp add: computeDisplayMode_def)

text \<open>A playable video in tile view, hovered, with no \<open>canplay\<close> event yet.\<close>

theorem remote_without_canplay_shows_avatar_witness:
  "isRemoteParticipant \<lparr> isAudioOnly = False, isCurrentlyOnLargeVideo = False,
       isScreenSharing = False, canPlayEventReceived = False, isHovered = True,
       isRemoteParticipant = True, tileViewActive = True, isVideoPlayable = True \<rparr>
   \<and> \<not> canPlayEventReceived \<lparr> isAudioOnly = False, isCurrentlyOnLargeVideo = False,
       isScreenSharing = False, canPlayEventReceived = False, isHovered = True,
       isRemoteParticipant = True, tileViewActive = True, isVideoPlayable = True \<rparr>
   \<and> computeDisplayMode \<lparr> isAudioOnly = False, isCurrentlyOnLargeVideo = False,
       isScreenSharing = False, canPlayEventReceived = False, isHovered = True,
       isRemoteParticipant = True, tileViewActive = True, isVideoPlayable = True \<rparr>
     = DISPLAY_AVATAR_WITH_NAME"
  using remote_without_canplay_shows_avatar
    [of "\<lparr> isAudioOnly = False, isCurrentlyOnLargeVideo = False,
       isScreenSharing = False, canPlayEventReceived = False, isHovered = True,
       isRemoteParticipant = True, tileViewActive = True, isVideoPlayable = True \<rparr>"]
  by (simp add: computeDisplayMode_def)

section \<open>Properties of the horizontal and vertical filmstrip\<close>

lemma horizontal_height_le:
  assumes "cap \<noteq> NaN" and "js_le ch (Num 0)"
  shows "js_le (js_sub (Math_min ch (js_add cap (Num 15))) (Num 15)) (Num (- 15))"
    and "js_le (js_sub (Math_min ch (js_add cap (Num 15))) (Num 15)) (js_sub ch (Num 15))"
  using assms by (cases ch; cases cap; simp add: js_le_def Math_min_def)+

text \<open>
  Claim C6. Let \<open>clientHeight\<close> be the argument of
  \<open>calculateThumbnailSizeForHorizontalView\<close>, or 0 when the argument is omitted. For every
  \<open>clientHeight \<le> 0\<close> the local and the remote thumbnail get the same height, that height
  is at most \<open>-15\<close> (a negative result is not clamped), and it is at most
  \<open>clientHeight - 15\<close>. This holds for every configuration.
\<close>

theorem horizontal_height_nonpositive_client:
  assumes "js_le (default_param arg (Num 0)) (Num 0)"
  shows "height (local (calculateThumbnailSizeForHorizontalView cfg arg))
           = height (remote (calculateThumbnailSizeForHorizontalView cfg arg))
         \<and> js_le (height (local (calculateThumbnailSizeForHorizontalView cfg arg))) (Num (- 15))
         \<and> js_le (height (remote (calculateThumbnailSizeForHorizontalView cfg arg))) (Num (- 15))
         \<and> js_le (height (local (calculateThumbnailSizeForHorizontalView cfg arg)))
              (js_sub (default_param arg (Num 0)) (Num 15))"
proof -
  have cap: "js_or (FILM_STRIP_MAX_HEIGHT cfg) (Num 120) \<noteq> NaN"
    by (rule js_or_not_NaN) simp
  show ?thesis
    using horizontal_height_le [OF cap assms]
    by (simp add: calculateThumbnailSizeForHorizontalView_def Let_def)
qed

text \<open>A client height of \<open>-10\<close> with a cap of 120: the height is \<open>-25\<close>.\<close>

theorem horizontal_height_nonpositive_client_witness:
  "js_le (default_param (Some (Num (- 10))) (Num 0)) (Num 0)
   \<and> height (local (calculateThumbnailSizeForHorizontalView
         \<lparr> FILM_STRIP_MAX_HEIGHT = Some (Num 120), LOCAL_THUMBNAIL_RATIO = Some (Num (16 / 9)),
           REMOTE_THUMBNAIL_RATIO = Some (Num 1) \<rparr> (Some (Num (- 10))))) = Num (- 25)
   \<and> height (remote (calculateThumbnailSizeForHorizontalView
         \<lparr> FILM_STRIP_MAX_HEIGHT = Some (Num 120), LOCAL_THUMBNAIL_RATIO = Some (Num (16 / 9)),
           REMOTE_THUMBNAIL_RATIO = Some (Num 1) \<rparr> (Some (Num (- 10))))) = Num (- 25)
   \<and> js_le (height (local (calculateThumbnailSizeForHorizontalView
         \<lparr> FILM_STRIP_MAX_HEIGHT = Some (Num 120), LOCAL_THUMBNAIL_RATIO = Some (Num (16 / 9)),
           REMOTE_THUMBNAIL_RATIO = Some (Num 1) \<rparr> (Some (Num (- 10)))))) (Num (- 15))"
  using horizontal_height_nonpositive_client
    [of "Some (Num (- 10))"
        "\<lparr> FILM_STRIP_MAX_HEIGHT = Some (Num 120), LOCAL_THUMBNAIL_RATIO = Some (Num (16 / 9)),
           REMOTE_THUMBNAIL_RATIO = Some (Num 1) \<rparr>"]
  by (simp add: calculateThumbnailSizeForHorizontalView_def Let_def default_param_def
      js_or_truthy)

text \<open>
  Claim C5. Let \<open>clientWidth\<close> be the argument of
  \<open>calculateThumbnailSizeForVerticalView\<close> (0 when omitted), \<open>horizontalMargin\<close> the sum
  of the four margin and border constants, and \<open>maxStripHeight\<close> the filmstrip
  max-height configuration value as the function reads it,
  \<^verbatim>\<open>interfaceConfig.FILM_STRIP_MAX_HEIGHT || 120\<close>, used here as a cap on the width. With
  \<open>availableWidth = min (max (clientWidth - horizontalMargin) 0) maxStripHeight\<close>, both
  thumbnails get the width \<open>availableWidth\<close>, the local one the height
  \<open>floor (availableWidth / LOCAL_THUMBNAIL_RATIO)\<close> and the remote one the height
  \<open>floor (availableWidth / REMOTE_THUMBNAIL_RATIO)\<close>. Whenever the configured value is
  set to a number other than 0 and \<open>NaN\<close>, \<open>maxStripHeight\<close> is that value.
\<close>

theorem vertical_view_sizes:
  "(let clientWidth = default_param arg (Num 0);
        horizontalMargin = VERTICAL_FILMSTRIP_MIN_HORIZONTAL_MARGIN k + SCROLL_SIZE k
          + TILE_HORIZONTAL_MARGIN k + STAGE_VIEW_THUMBNAIL_HORIZONTAL_BORDER k;
        maxStripHeight = js_or (FILM_STRIP_MAX_HEIGHT cfg) (Num 120);
        availableWidth =
          Math_min (Math_max (js_sub clientWidth (Num horizontalMargin)) (Num 0)) maxStripHeight
    in calculateThumbnailSizeForVerticalView k cfg arg =
         \<lparr> local = \<lparr> height = Math_floor
                        (js_div availableWidth (to_number (LOCAL_THUMBNAIL_RATIO cfg))),
                      width = availableWidth \<rparr>,
           remote = \<lparr> height = Math_floor
                         (js_div availableWidth (to_number (REMOTE_THUMBNAIL_RATIO cfg))),
                       width = availableWidth \<rparr> \<rparr>
       \<and> (\<forall>n. FILM_STRIP_MAX_HEIGHT cfg = Some n \<and> n \<noteq> Num 0 \<and> n \<noteq> NaN
              \<longrightarrow> maxStripHeight = n))"
  by (simp add: calculateThumbnailSizeForVerticalView_def horizontalMargin_def Let_def
      js_or_truthy)

text \<open>
  A client width of 100 with margins of 10, 7, 4 and 4 and a cap of 120: the width is 75,
  the heights are \<open>floor (75 / (16 / 9)) = 42\<close> and 75.
\<close>

theorem vertical_view_sizes_witness:
  "FILM_STRIP_MAX_HEIGHT \<lparr> FILM_STRIP_MAX_HEIGHT = Some (Num 120),
       LOCAL_THUMBNAIL_RATIO = Some (Num (16 / 9)), REMOTE_THUMBNAIL_RATIO = Some (Num 1) \<rparr>
     = Some (Num 120)
   \<and> Num 120 \<noteq> Num 0 \<and> Num 120 \<noteq> NaN
   \<and> calculateThumbnailSizeForVerticalView
        \<lparr> ASPECT_RATIO_BREAKPOINT = 500, SCROLL_SIZE = 7, SQUARE_TILE_ASPECT_RATIO = 1,
          STAGE_VIEW_THUMBNAIL_HORIZONTAL_BORDER = 4, TILE_ASPECT_RATIO = 16 / 9,
          TILE_HORIZONTAL_MARGIN = 4, TILE_VERTICAL_MARGIN = 4,
          VERTICAL_FILMSTRIP_MIN_HORIZONTAL_MARGIN = 10 \<rparr>
        \<lparr> FILM_STRIP_MAX_HEIGHT = Some (Num 120),
          LOCAL_THUMBNAIL_RATIO = Some (Num (16 / 9)), REMOTE_THUMBNAIL_RATIO = Some (Num 1) \<rparr>
        (Some (Num 100))
      = \<lparr> local = \<lparr> height = Num 42, width = Num 75 \<rparr>,
          remote = \<lparr> height = Num 75, width = Num 75 \<rparr> \<rparr>"
  using vertical_view_sizes
    [of "Some (Num 100)"
        "\<lparr> ASPECT_RATIO_BREAKPOINT = 500, SCROLL_SIZE = 7, SQUARE_TILE_ASPECT_RATIO = 1,
          STAGE_VIEW_THUMBNAIL_HORIZONTAL_BORDER = 4, TILE_ASPECT_RATIO = 16 / 9,
          TILE_HORIZONTAL_MARGIN = 4, TILE_VERTICAL_MARGIN = 4,
          VERTICAL_FILMSTRIP_MIN_HORIZONTAL_MARGIN = 10 \<rparr>"
        "\<lparr> FILM_STRIP_MAX_HEIGHT = Some (Num 120),
          LOCAL_THUMBNAIL_RATIO = Some (Num (16 / 9)), REMOTE_THUMBNAIL_RATIO = Some (Num 1) \<rparr>"]
  by (simp add: Let_def default_param_def js_or_truthy to_number_def)

text \<open>
  Claim C8, as amended. An omitted \<open>clientHeight\<close> argument of
  \<open>calculateThumbnailSizeForHorizontalView\<close> behaves as the argument 0, and an unset
  \<open>FILM_STRIP_MAX_HEIGHT\<close> behaves as the value 120 in the horizontal and in the vertical
  view. The default of 120 belongs to the max-height value, not to the two ratio values.
\<close>

theorem geometry_defaults:
  "calculateThumbnailSizeForHorizontalView cfg None
     = calculateThumbnailSizeForHorizontalView cfg (Some (Num 0))
   \<and> calculateThumbnailSizeForHorizontalView (cfg\<lparr>FILM_STRIP_MAX_HEIGHT := None\<rparr>) arg
     = calculateThumbnailSizeForHorizontalView (cfg\<lparr>FILM_STRIP_MAX_HEIGHT := Some (Num 120)\<rparr>) arg
   \<and> calculateThumbnailSizeForVerticalView k (cfg\<lparr>FILM_STRIP_MAX_HEIGHT := None\<rparr>) arg
     = calculateThumbnailSizeForVerticalView k (cfg\<lparr>FILM_STRIP_MAX_HEIGHT := Some (Num 120)\<rparr>) arg"
  by (simp add: calculateThumbnailSizeForHorizontalView_def
      calculateThumbnailSizeForVerticalView_def Let_def default_param_def js_or_truthy)

text \<open>
  Claim C8 as it is written fails for the ratio values: \<open>LOCAL_THUMBNAIL_RATIO\<close> and
  \<open>REMOTE_THUMBNAIL_RATIO\<close> are read without a default. With both unset, a client size
  of 100 and a cap of 120, the horizontal view gives the width \<open>NaN\<close> and the vertical
  view the height \<open>NaN\<close>, where ratios of 120 give 10200 and 0.
\<close>

theorem unset_ratio_counterexample:
  "calculateThumbnailSizeForHorizontalView
       \<lparr> FILM_STRIP_MAX_HEIGHT = Some (Num 120), LOCAL_THUMBNAIL_RATIO = None,
         REMOTE_THUMBNAIL_RATIO = None \<rparr> (Some (Num 100))
     = \<lparr> local = \<lparr> height = Num 85, width = NaN \<rparr>,
         remote = \<lparr> height = Num 85, width = NaN \<rparr> \<rparr>
   \<and> calculateThumbnailSizeForHorizontalView
       \<lparr> FILM_STRIP_MAX_HEIGHT = Some (Num 120), LOCAL_THUMBNAIL_RATIO = Some (Num 120),
         REMOTE_THUMBNAIL_RATIO = Some (Num 120) \<rparr> (Some (Num 100))
     = \<lparr> local = \<lparr> height = Num 85, width = Num 10200 \<rparr>,
         remote = \<lparr> height = Num 85, width = Num 10200 \<rparr> \<rparr>
   \<and> calculateThumbnailSizeForVerticalView
       \<lparr> ASPECT_RATIO_BREAKPOINT = 500, SCROLL_SIZE = 7, SQUARE_TILE_ASPECT_RATIO = 1,
         STAGE_VIEW_THUMBNAIL_HORIZONTAL_BORDER = 4, TILE_ASPECT_RATIO = 16 / 9,
         TILE_HORIZONTAL_MARGIN = 4, TILE_VERTICAL_MARGIN = 4,
         VERTICAL_FILMSTRIP_MIN_HORIZONTAL_MARGIN = 10 \<rparr>
       \<lparr> FILM_STRIP_MAX_HEIGHT = Some (Num 120), LOCAL_THUMBNAIL_RATIO = None,
         REMOTE_THUMBNAIL_RATIO = None \<rparr> (Some (Num 100))
     = \<lparr> local = \<lparr> height = NaN, width = Num 75 \<rparr>,
         remote = \<lparr> height = NaN, width = Num 75 \<rparr> \<rparr>
   \<and> calculateThumbnailSizeForVerticalView
       \<lparr> ASPECT_RATIO_BREAKPOINT = 500, SCROLL_SIZE = 7, SQUARE_TILE_ASPECT_RATIO = 1,
         STAGE_VIEW_THUMBNAIL_HORIZONTAL_BORDER = 4, TILE_ASPECT_RATIO = 16 / 9,
         TILE_HORIZONTAL_MARGIN = 4, TILE_VERTICAL_MARGIN = 4,
         VERTICAL_FILMSTRIP_MIN_HORIZONTAL_MARGIN = 10 \<rparr>
       \<lparr> FILM_STRIP_MAX_HEIGHT = Some (Num 120), LOCAL_THUMBNAIL_RATIO = Some (Num 120),
         REMOTE_THUMBNAIL_RATIO = Some (Num 120) \<rparr> (Some (Num 100))
     = \<lparr> local = \<lparr> height = Num 0, width = Num 75 \<rparr>,
         remote = \<lparr> height = Num 0, width = Num 75 \<rparr> \<rparr>"
  by (simp add: calculateThumbnailSizeForHorizontalView_def
      calculateThumbnailSizeForVerticalView_def horizontalMargin_def Let_def default_param_def
      js_or_truthy to_number_def)

text \<open>
  Claim C10. A \<open>FILM_STRIP_MAX_HEIGHT\<close> of 0 gives, in
  \<open>calculateThumbnailSizeForHorizontalView\<close>, \<open>calculateThumbnailSizeForVerticalView\<close>
  and \<open>getVerticalFilmstripVisibleAreaWidth\<close>, the result that an unset value gives, which
  is the result for 120; and the cap that the three functions compute from the
  configuration is never 0.
\<close>

theorem zero_max_height_is_unset:
  "calculateThumbnailSizeForHorizontalView (cfg\<lparr>FILM_STRIP_MAX_HEIGHT := Some (Num 0)\<rparr>) arg
     = calculateThumbnailSizeForHorizontalView (cfg\<lparr>FILM_STRIP_MAX_HEIGHT := None\<rparr>) arg
   \<and> calculateThumbnailSizeForHorizontalView (cfg\<lparr>FILM_STRIP_MAX_HEIGHT := Some (Num 0)\<rparr>) arg
     = calculateThumbnailSizeForHorizontalView (cfg\<lparr>FILM_STRIP_MAX_HEIGHT := Some (Num 120)\<rparr>) arg
   \<and> calculateThumbnailSizeForVerticalView k (cfg\<lparr>FILM_STRIP_MAX_HEIGHT := Some (Num 0)\<rparr>) arg
     = calculateThumbnailSizeForVerticalView k (cfg\<lparr>FILM_STRIP_MAX_HEIGHT := None\<rparr>) arg
   \<and> calculateThumbnailSizeForVerticalView k (cfg\<lparr>FILM_STRIP_MAX_HEIGHT := Some (Num 0)\<rparr>) arg
     = calculateThumbnailSizeForVerticalView k (cfg\<lparr>FILM_STRIP_MAX_HEIGHT := Some (Num 120)\<rparr>) arg
   \<and> getVerticalFilmstripVisibleAreaWidth (cfg\<lparr>FILM_STRIP_MAX_HEIGHT := Some (Num 0)\<rparr>) innerWidth
     = getVerticalFilmstripVisibleAreaWidth (cfg\<lparr>FILM_STRIP_MAX_HEIGHT := None\<rparr>) innerWidth
   \<and> getVerticalFilmstripVisibleAreaWidth (cfg\<lparr>FILM_STRIP_MAX_HEIGHT := Some (Num 0)\<rparr>) innerWidth
     = getVerticalFilmstripVisibleAreaWidth (cfg\<lparr>FILM_STRIP_MAX_HEIGHT := Some (Num 120)\<rparr>) innerWidth
   \<and> js_or (FILM_STRIP_MAX_HEIGHT cfg) (Num 120) \<noteq> Num 0"
  by (simp add: calculateThumbnailSizeForHorizontalView_def
      calculateThumbnailSizeForVerticalView_def getVerticalFilmstripVisibleAreaWidth_def
      Let_def js_or_truthy js_or_not_zero)

section \<open>Properties of the tile view\<close>



section \<open>Properties of the tile view in double precision\<close>

lemma bitlen_numeral [simp]: "bitlen (numeral n) = bitlen (numeral n div 2) + 1"
  by (subst compute_bitlen) simp

lemma bitlen_one [simp]: "bitlen 1 = 1"
  by (subst compute_bitlen) simp

text \<open>\<open>binade\<close> is the binary exponent: \<open>2 ^ binade x \<le> \<bar>x\<bar> < 2 ^ (binade x + 1)\<close>.\<close>

lemma binade_bounds:
  assumes "x \<noteq> 0"
  shows "power_int 2 (binade x) \<le> \<bar>x\<bar>" and "\<bar>x\<bar> < power_int 2 (binade x + 1)"
proof -
  have "power_int 2 (binade x) \<le> \<bar>x\<bar> \<and> \<bar>x\<bar> < power_int 2 (binade x + 1)"
  proof (cases "1 \<le> \<bar>x\<bar>")
    case True
    define m where "m = \<lfloor>\<bar>x\<bar>\<rfloor>"
    define b where "b = bitlen m"
    have m: "0 < m" "of_int m \<le> \<bar>x\<bar>" "\<bar>x\<bar> < of_int m + 1"
      using True by (simp_all add: m_def)
    have b: "2 ^ nat (b - 1) \<le> m" "m < 2 ^ nat b"
      using bitlen_bounds [OF m(1)] by (simp_all add: b_def)
    have "1 \<le> b"
      using m(1) bitlen_eq_zero_iff [of m] bitlen_nonneg [of m] by (simp add: b_def)
    then have e: "power_int 2 (b - 1) = (2::real) ^ nat (b - 1)"
      "power_int 2 (b - 1 + 1) = (2::real) ^ nat b"
      by (simp_all add: power_int_def)
    have "(2::real) ^ nat (b - 1) = of_int (2 ^ nat (b - 1))"
      by simp
    also have "\<dots> \<le> of_int m"
      using b(1) by (simp only: of_int_le_iff)
    also have "\<dots> \<le> \<bar>x\<bar>"
      by (rule m(2))
    finally have lo: "(2::real) ^ nat (b - 1) \<le> \<bar>x\<bar>" .
    have "m + 1 \<le> 2 ^ nat b"
      using b(2) by simp
    then have "(of_int (m + 1) :: real) \<le> of_int (2 ^ nat b)"
      by (simp only: of_int_le_iff)
    also have "\<dots> = 2 ^ nat b"
      by simp
    finally have "of_int m + 1 \<le> (2::real) ^ nat b"
      by simp
    with m(3) have hi: "\<bar>x\<bar> < (2::real) ^ nat b"
      by linarith
    show ?thesis
      using True lo hi e by (simp add: binade_def m_def [symmetric] b_def [symmetric])
  next
    case False
    define y where "y = 1 / \<bar>x\<bar>"
    define c where "c = \<lceil>y\<rceil>"
    define b where "b = bitlen (c - 1)"
    have x: "0 < \<bar>x\<bar>" "\<bar>x\<bar> < 1"
      using assms False by simp_all
    then have y: "1 < y" "\<bar>x\<bar> = 1 / y"
      by (simp_all add: y_def)
    have c: "y \<le> of_int c" "of_int c - 1 < y"
      by (simp_all add: c_def) linarith
    have "1 < (of_int c :: real)"
      using y(1) c(1) by linarith
    then have cpos: "0 < c - 1"
      by simp
    have b: "2 ^ nat (b - 1) \<le> c - 1" "c - 1 < 2 ^ nat b"
      using bitlen_bounds [OF cpos] by (simp_all add: b_def)
    have "1 \<le> b"
      using cpos bitlen_eq_zero_iff [of "c - 1"] bitlen_nonneg [of "c - 1"] by (simp add: b_def)
    then have e: "power_int 2 (- b) = 1 / (2::real) ^ nat b"
      "power_int 2 (- b + 1) = 1 / (2::real) ^ nat (b - 1)"
      by (simp_all add: power_int_def power_one_over nat_diff_distrib)
    have "c \<le> 2 ^ nat b"
      using b(2) by simp
    then have "(of_int c :: real) \<le> of_int (2 ^ nat b)"
      by (simp only: of_int_le_iff)
    also have "\<dots> = 2 ^ nat b"
      by simp
    finally have "y \<le> 2 ^ nat b"
      using c(1) by linarith
    then have lo: "1 / (2::real) ^ nat b \<le> 1 / y"
      using y(1) by (simp add: frac_le)
    have "(2::real) ^ nat (b - 1) = of_int (2 ^ nat (b - 1))"
      by simp
    also have "\<dots> \<le> of_int (c - 1)"
      using b(1) by (simp only: of_int_le_iff)
    also have "\<dots> = of_int c - 1"
      by simp
    finally have "(2::real) ^ nat (b - 1) < y"
      using c(2) by linarith
    then have hi: "1 / y < 1 / (2::real) ^ nat (b - 1)"
      by (simp add: frac_less2)
    show ?thesis
      using False lo hi e y(2)
      by (simp add: binade_def y_def [symmetric] c_def [symmetric] b_def [symmetric])
  qed
  then show "power_int 2 (binade x) \<le> \<bar>x\<bar>" and "\<bar>x\<bar> < power_int 2 (binade x + 1)"
    by simp_all
qed

lemma round_even_close: "\<bar>of_int (round_even y) - y\<bar> \<le> 1 / 2"
  unfolding round_even_def Let_def by (simp; linarith)

lemma binade_le:
  assumes "\<bar>x\<bar> < 2 ^ 53"
  shows "binade x \<le> 52"
proof (cases "1 \<le> \<bar>x\<bar>")
  case True
  have "\<lfloor>\<bar>x\<bar>\<rfloor> < 2 ^ 53"
    using assms by (simp add: floor_less_iff)
  then have "bitlen \<lfloor>\<bar>x\<bar>\<rfloor> \<le> 53"
    by (simp add: bitlen_le_iff_power)
  with True show ?thesis by (simp add: binade_def)
next
  case False
  then show ?thesis
    using bitlen_nonneg [of "\<lceil>1 / \<bar>x\<bar>\<rceil> - 1"] by (simp add: binade_def)
qed

text \<open>Below \<open>2 ^ 53\<close> the spacing is at most 1: the stored value is a dyadic fraction
  within half a spacing of the exact one.\<close>

lemma to_double_small:
  assumes "\<bar>x\<bar> < 2 ^ 53"
  shows "\<exists>(j::nat) (n::int). to_double x = Num (of_int n / 2 ^ j)
           \<and> \<bar>of_int n / 2 ^ j - x\<bar> \<le> 1 / (2 * 2 ^ j)"
proof (cases "x = 0")
  case True
  then have "to_double x = Num (of_int 0 / 2 ^ 0) \<and> \<bar>of_int 0 / 2 ^ 0 - x\<bar> \<le> 1 / (2 * 2 ^ 0)"
    by (simp add: to_double_def)
  then show ?thesis by blast
next
  case False
  define e where "e = max (binade x) (- 1022) - 52"
  define j where "j = nat (- e)"
  define n where "n = round_even (x / quantum x)"
  have "e \<le> 0"
    using binade_le [OF assms] by (simp add: e_def)
  then have q: "quantum x = 1 / 2 ^ j"
    by (simp add: quantum_def e_def [symmetric] j_def power_int_def power_one_over)
  have r: "quantum x * of_int n = of_int n / 2 ^ j"
    by (simp add: q)
  have "\<bar>of_int n - x * 2 ^ j\<bar> \<le> 1 / 2"
    using round_even_close [of "x / quantum x"] by (simp add: n_def q)
  then have "\<bar>of_int n - x * 2 ^ j\<bar> / 2 ^ j \<le> (1 / 2) / 2 ^ j"
    by (rule divide_right_mono) simp
  moreover have "of_int n / 2 ^ j - x = (of_int n - x * 2 ^ j) / 2 ^ j"
    by (simp add: diff_divide_distrib)
  then have "\<bar>of_int n - x * 2 ^ j\<bar> / 2 ^ j = \<bar>of_int n / 2 ^ j - x\<bar>"
    by (simp add: abs_divide)
  ultimately have close: "\<bar>of_int n / 2 ^ j - x\<bar> \<le> 1 / (2 * 2 ^ j)"
    by simp
  have "(1::real) \<le> 2 ^ Suc j"
    by (rule one_le_power) simp
  then have "(1::real) \<le> 2 * 2 ^ j"
    by (simp only: power_Suc)
  then have "1 / (2 * 2 ^ j) \<le> (1::real)"
    by (simp add: divide_le_eq_1)
  with close have "\<bar>of_int n / 2 ^ j\<bar> \<le> \<bar>x\<bar> + 1"
    by linarith
  also have "\<dots> < 2 ^ 53 + 1"
    using assms by simp
  also have "\<dots> \<le> (2::real) ^ 1024"
    by simp
  finally have "\<not> 2 ^ 1024 \<le> \<bar>of_int n / 2 ^ j :: real\<bar>"
    by simp
  then have "to_double x = Num (of_int n / 2 ^ j)"
    using False by (simp add: to_double_def Let_def n_def [symmetric] r)
  with close show ?thesis by blast
qed

text \<open>The floor of a dyadic fraction that is within half its spacing of \<open>x\<close> is within 1
  of \<open>x\<close>.\<close>

lemma floor_dyadic:
  fixes x :: real
  assumes "\<bar>of_int n / 2 ^ j - x\<bar> \<le> 1 / (2 * 2 ^ j)"
  shows "\<bar>of_int \<lfloor>of_int n / 2 ^ j :: real\<rfloor> - x\<bar> \<le> 1"
proof -
  define M :: int where "M = 2 ^ j"
  have M: "0 < M" "(2::real) ^ j = of_int M"
    by (simp_all add: M_def)
  have fl: "\<lfloor>of_int n / 2 ^ j :: real\<rfloor> = n div M"
    by (simp add: M floor_divide_of_int_eq)
  have "of_int n = of_int (M * (n div M) + n mod M)"
    by simp
  then have split: "(of_int n :: real) = of_int M * of_int (n div M) + of_int (n mod M)"
    by (simp only: of_int_add of_int_mult)
  have frac: "of_int n / of_int M - of_int (n div M) = (of_int (n mod M) :: real) / of_int M"
    using M(1) by (simp add: split field_simps)
  have c: "\<bar>of_int n / of_int M - x\<bar> \<le> 1 / (2 * of_int M)"
    using assms by (simp add: M)
  show ?thesis
  proof (cases "n mod M = 0")
    case True
    then have "of_int n / of_int M = (of_int (n div M) :: real)"
      using frac by simp
    moreover have "1 / (2 * of_int M) \<le> (1::real)"
      using M(1) by (simp add: divide_le_eq_1)
    ultimately show ?thesis
      using c by (simp add: fl)
  next
    case False
    have "0 \<le> n mod M" "n mod M < M"
      using M(1) by simp_all
    with False have "1 \<le> n mod M" "n mod M \<le> M - 1"
      by simp_all
    then have "(1::real) \<le> of_int (n mod M)" "(of_int (n mod M) :: real) \<le> of_int M - 1"
      by (metis of_int_1 of_int_le_iff, metis of_int_1 of_int_diff of_int_le_iff)
    then have lo: "1 / of_int M \<le> (of_int (n mod M) :: real) / of_int M"
      and hi: "(of_int (n mod M) :: real) / of_int M \<le> 1 - 1 / of_int M"
      using M(1) by (simp_all add: field_simps)
    define u :: real where "u = 1 / of_int M"
    define f :: real where "f = of_int (n mod M) / of_int M"
    define r :: real where "r = of_int n / of_int M"
    have "1 / (2 * of_int M) = u / 2"
      by (simp add: u_def)
    with c have "\<bar>r - x\<bar> \<le> u / 2"
      by (simp add: r_def)
    moreover have "0 < u"
      using M(1) by (simp add: u_def)
    moreover have "u \<le> f" "f \<le> 1 - u"
      using lo hi by (simp_all add: u_def f_def)
    moreover have "r - of_int (n div M) = f"
      using frac by (simp add: r_def f_def)
    ultimately have "\<bar>of_int (n div M) - x\<bar> \<le> 1"
      by linarith
    then show ?thesis
      by (simp add: fl)
  qed
qed

lemma floor_to_double_small:
  assumes "\<bar>x\<bar> < 2 ^ 53"
  shows "\<exists>W. Math_floor (to_double x) = Num W \<and> \<bar>W - x\<bar> \<le> 1"
proof -
  obtain j :: nat and n :: int
    where "to_double x = Num (of_int n / 2 ^ j)" "\<bar>of_int n / 2 ^ j - x\<bar> \<le> 1 / (2 * 2 ^ j)"
    using to_double_small [OF assms] by blast
  then show ?thesis
    using floor_dyadic [of n j x] by simp
qed

lemma tile_view_dbl_width:
  "width (calculateThumbnailSizeForTileView_dbl k i)
     = Math_floor (dbl_mul (aspectRatio k i) (height (calculateThumbnailSizeForTileView_dbl k i)))"
  by (simp add: calculateThumbnailSizeForTileView_dbl_def Let_def)

text \<open>
  Claim C4, as amended. In double precision, whenever the height \<open>H\<close> that
  \<open>calculateThumbnailSizeForTileView\<close> returns is finite and \<open>\<bar>aspectRatio * H\<bar> < 2 ^ 53\<close>,
  the width \<open>W\<close> it returns is finite and \<open>\<bar>W - aspectRatio * H\<bar> \<le> 1\<close>, the product
  being the exact one and \<open>aspectRatio\<close> the ratio the function selects from
  \<open>disableResponsiveTiles\<close> and the breakpoint. This holds for every argument object, so
  for every one with positive \<open>columns\<close>, \<open>minVisibleRows\<close> and \<open>rows\<close> and a positive
  ratio.
\<close>

theorem tile_view_aspect_round_trip:
  assumes "aspectRatio k i = Num a"
    and "height (calculateThumbnailSizeForTileView_dbl k i) = Num H"
    and "\<bar>a * H\<bar> < 2 ^ 53"
  shows "\<exists>W. width (calculateThumbnailSizeForTileView_dbl k i) = Num W \<and> \<bar>W - a * H\<bar> \<le> 1"
  using floor_to_double_small [OF assms(3)] assms(1,2)
  by (simp add: tile_view_dbl_width dbl_mul_def)

text \<open>
  A window of 900 by 600 with 3 columns and 5 rows of which 2 are visible, the ratio being
  the double nearest to \<open>16 / 9\<close>: the result in double precision is 165 by 293, and the
  product of the ratio and 165 is far below \<open>2 ^ 53\<close>.
\<close>

theorem tile_view_aspect_round_trip_witness:
  "aspectRatio
       \<lparr> ASPECT_RATIO_BREAKPOINT = 500, SCROLL_SIZE = 7, SQUARE_TILE_ASPECT_RATIO = 1,
         STAGE_VIEW_THUMBNAIL_HORIZONTAL_BORDER = 4,
         TILE_ASPECT_RATIO = 2001599834386887 / 1125899906842624,
         TILE_HORIZONTAL_MARGIN = 4, TILE_VERTICAL_MARGIN = 4,
         VERTICAL_FILMSTRIP_MIN_HORIZONTAL_MARGIN = 10 \<rparr>
       \<lparr> columns = Num 3, minVisibleRows = Num 2, rows = Num 5, clientWidth = Num 900,
         clientHeight = Num 600, disableResponsiveTiles = False \<rparr>
     = Num (2001599834386887 / 1125899906842624)
   \<and> height (calculateThumbnailSizeForTileView_dbl
       \<lparr> ASPECT_RATIO_BREAKPOINT = 500, SCROLL_SIZE = 7, SQUARE_TILE_ASPECT_RATIO = 1,
         STAGE_VIEW_THUMBNAIL_HORIZONTAL_BORDER = 4,
         TILE_ASPECT_RATIO = 2001599834386887 / 1125899906842624,
         TILE_HORIZONTAL_MARGIN = 4, TILE_VERTICAL_MARGIN = 4,
         VERTICAL_FILMSTRIP_MIN_HORIZONTAL_MARGIN = 10 \<rparr>
       \<lparr> columns = Num 3, minVisibleRows = Num 2, rows = Num 5, clientWidth = Num 900,
         clientHeight = Num 600, disableResponsiveTiles = False \<rparr>)
     = Num 165
   \<and> \<bar>2001599834386887 / 1125899906842624 * 165\<bar> < (2::real) ^ 53
   \<and> width (calculateThumbnailSizeForTileView_dbl
       \<lparr> ASPECT_RATIO_BREAKPOINT = 500, SCROLL_SIZE = 7, SQUARE_TILE_ASPECT_RATIO = 1,
         STAGE_VIEW_THUMBNAIL_HORIZONTAL_BORDER = 4,
         TILE_ASPECT_RATIO = 2001599834386887 / 1125899906842624,
         TILE_HORIZONTAL_MARGIN = 4, TILE_VERTICAL_MARGIN = 4,
         VERTICAL_FILMSTRIP_MIN_HORIZONTAL_MARGIN = 10 \<rparr>
       \<lparr> columns = Num 3, minVisibleRows = Num 2, rows = Num 5, clientWidth = Num 900,
         clientHeight = Num 600, disableResponsiveTiles = False \<rparr>)
     = Num 293
   \<and> \<bar>293 - 2001599834386887 / 1125899906842624 * 165\<bar> \<le> (1::real)"
proof -
  have val: "calculateThumbnailSizeForTileView_dbl
       \<lparr> ASPECT_RATIO_BREAKPOINT = 500, SCROLL_SIZE = 7, SQUARE_TILE_ASPECT_RATIO = 1,
         STAGE_VIEW_THUMBNAIL_HORIZONTAL_BORDER = 4,
         TILE_ASPECT_RATIO = 2001599834386887 / 1125899906842624,
         TILE_HORIZONTAL_MARGIN = 4, TILE_VERTICAL_MARGIN = 4,
         VERTICAL_FILMSTRIP_MIN_HORIZONTAL_MARGIN = 10 \<rparr>
       \<lparr> columns = Num 3, minVisibleRows = Num 2, rows = Num 5, clientWidth = Num 900,
         clientHeight = Num 600, disableResponsiveTiles = False \<rparr>
     = \<lparr> height = Num 165, width = Num 293 \<rparr>"
    by (simp add: calculateThumbnailSizeForTileView_dbl_def Let_def aspectRatio_def
        viewWidth_dbl_def viewHeight_dbl_def initialWidth_dbl_def initialHeight_dbl_def
        aspectRatioHeight_dbl_def noScrollHeight_dbl_def scrollInitialWidth_dbl_def
        dbl_sub_def dbl_mul_def dbl_div_def to_double_def quantum_def binade_def
        round_even_def)
  show ?thesis
    using val
      tile_view_aspect_round_trip
        [of "\<lparr> ASPECT_RATIO_BREAKPOINT = 500, SCROLL_SIZE = 7, SQUARE_TILE_ASPECT_RATIO = 1,
           STAGE_VIEW_THUMBNAIL_HORIZONTAL_BORDER = 4,
           TILE_ASPECT_RATIO = 2001599834386887 / 1125899906842624,
           TILE_HORIZONTAL_MARGIN = 4, TILE_VERTICAL_MARGIN = 4,
           VERTICAL_FILMSTRIP_MIN_HORIZONTAL_MARGIN = 10 \<rparr>"
          "\<lparr> columns = Num 3, minVisibleRows = Num 2, rows = Num 5, clientWidth = Num 900,
           clientHeight = Num 600, disableResponsiveTiles = False \<rparr>"
          "2001599834386887 / 1125899906842624" 165]
    by (simp add: aspectRatio_def)
qed

text \<open>
  Claim C4 as it is written fails for large windows. With 3 columns, 5 rows of which 2 are
  visible and a window of \<open>10 ^ 18\<close> by \<open>10 ^ 18\<close>, the doubles near the result are 128
  apart: the height is 187500000000000000, the width 333333333333333312, and the width
  differs from the product of the ratio and the height by more than 1 (by about 2.83).
  The window sizes and the ratio are doubles.
\<close>

theorem tile_view_large_window_counterexample:
  "to_double 1000000000000000000 = Num 1000000000000000000
   \<and> to_double (16 / 9) = Num (2001599834386887 / 1125899906842624)
   \<and> aspectRatio
       \<lparr> ASPECT_RATIO_BREAKPOINT = 500, SCROLL_SIZE = 7, SQUARE_TILE_ASPECT_RATIO = 1,
         STAGE_VIEW_THUMBNAIL_HORIZONTAL_BORDER = 4,
         TILE_ASPECT_RATIO = 2001599834386887 / 1125899906842624,
         TILE_HORIZONTAL_MARGIN = 4, TILE_VERTICAL_MARGIN = 4,
         VERTICAL_FILMSTRIP_MIN_HORIZONTAL_MARGIN = 10 \<rparr>
       \<lparr> columns = Num 3, minVisibleRows = Num 2, rows = Num 5,
         clientWidth = Num 1000000000000000000, clientHeight = Num 1000000000000000000,
         disableResponsiveTiles = False \<rparr>
     = Num (2001599834386887 / 1125899906842624)
   \<and> calculateThumbnailSizeForTileView_dbl
       \<lparr> ASPECT_RATIO_BREAKPOINT = 500, SCROLL_SIZE = 7, SQUARE_TILE_ASPECT_RATIO = 1,
         STAGE_VIEW_THUMBNAIL_HORIZONTAL_BORDER = 4,
         TILE_ASPECT_RATIO = 2001599834386887 / 1125899906842624,
         TILE_HORIZONTAL_MARGIN = 4, TILE_VERTICAL_MARGIN = 4,
         VERTICAL_FILMSTRIP_MIN_HORIZONTAL_MARGIN = 10 \<rparr>
       \<lparr> columns = Num 3, minVisibleRows = Num 2, rows = Num 5,
         clientWidth = Num 1000000000000000000, clientHeight = Num 1000000000000000000,
         disableResponsiveTiles = False \<rparr>
     = \<lparr> height = Num 187500000000000000, width = Num 333333333333333312 \<rparr>
   \<and> (1::real) < \<bar>333333333333333312
          - 2001599834386887 / 1125899906842624 * 187500000000000000\<bar>"
  by (simp add: calculateThumbnailSizeForTileView_dbl_def Let_def aspectRatio_def
      viewWidth_dbl_def viewHeight_dbl_def initialWidth_dbl_def initialHeight_dbl_def
      aspectRatioHeight_dbl_def noScrollHeight_dbl_def scrollInitialWidth_dbl_def
      dbl_sub_def dbl_mul_def dbl_div_def to_double_def quantum_def binade_def
      round_even_def)

end
